theory Spec2Isabelle
  imports Main
begin

section \<open>JavaScript values as the connector sees them\<close>

text \<open>
  The retry budget and \<open>config.maxRetries\<close> are JavaScript numbers, that is doubles.
  \<open>Num n\<close> is the finite double whose value is the integer \<open>n\<close> (an integer that no
  double has, such as \<open>2^53 + 1\<close>, is not a number the code can receive); \<open>NaN\<close> is the
  one number that is falsy without being \<open>\<le> 0\<close>. The value \<open>undefined\<close> in the place of a budget takes
  the same branches as \<open>NaN\<close> (\<open>undefined <= 0\<close> is false and \<open>undefined\<close> is falsy).
\<close>

datatype jsnum = Num int | NaN

text \<open>\<open>retry <= 0\<close>\<close>

fun num_le_zero :: "jsnum \<Rightarrow> bool" where
  "num_le_zero (Num n) = (n \<le> 0)"
| "num_le_zero NaN = False"

text \<open>The condition of \<open>retry ? ... : ...\<close>\<close>

fun num_truthy :: "jsnum \<Rightarrow> bool" where
  "num_truthy (Num n) = (n \<noteq> 0)"
| "num_truthy NaN = False"

text \<open>
  A double carries 53 significant bits. From \<open>2^53\<close> on, the doubles are the multiples of
  \<open>ulp_at a\<close>: of 2 up to \<open>2^54\<close>, of 4 up to \<open>2^55\<close>, and so on.
\<close>

fun ulp_at :: "nat \<Rightarrow> nat" where
  "ulp_at a = (if a < 2 ^ 53 then 1 else 2 * ulp_at (a div 2))"

declare ulp_at.simps [simp del]

text \<open>
  The double nearest to the integer \<open>x\<close>, the tie going to the even significand. (An
  integer past the largest finite double would round to an infinity; none arises as
  \<open>n - 1\<close> from a double \<open>n\<close>.)
\<close>

definition double_round :: "int \<Rightarrow> int" where
  "double_round x =
     (let a = nat \<bar>x\<bar>; u = ulp_at a; q = a div u; r = a mod u;
          m = (if u < 2 * r \<or> (2 * r = u \<and> odd q) then q + 1 else q)
      in sgn x * int (m * u))"

text \<open>\<open>retry - 1\<close>: the exact difference, rounded to a double.\<close>

fun num_pred :: "jsnum \<Rightarrow> jsnum" where
  "num_pred (Num n) = Num (double_round (n - 1))"
| "num_pred NaN = NaN"

datatype jsval =
    JUndefined
  | JNull
  | JBool bool
  | JNumber jsnum
  | JString string
  | JArray "jsval list"
  | JObject "(string \<times> jsval) list"

text \<open>The condition of \<open>!value\<close> is the negation of this.\<close>

fun truthy :: "jsval \<Rightarrow> bool" where
  "truthy JUndefined = False"
| "truthy JNull = False"
| "truthy (JBool b) = b"
| "truthy (JNumber n) = num_truthy n"
| "truthy (JString s) = (s \<noteq> [])"
| "truthy (JArray xs) = True"
| "truthy (JObject fs) = True"

subsection \<open>\<open>String(v)\<close>\<close>

text \<open>Integers print in decimal (as JavaScript prints them below \<open>10^21\<close>).\<close>

definition digit_char :: "nat \<Rightarrow> char" where
  "digit_char d = ''0123456789'' ! d"

fun dec_digits :: "nat \<Rightarrow> string" where
  "dec_digits n = (if n < 10 then [digit_char n] else dec_digits (n div 10) @ [digit_char (n mod 10)])"

declare dec_digits.simps [simp del]

fun num_to_string :: "jsnum \<Rightarrow> string" where
  "num_to_string NaN = ''NaN''"
| "num_to_string (Num n) = (if n < 0 then CHR ''-'' # dec_digits (nat (- n)) else dec_digits (nat n))"

fun join_comma :: "string list \<Rightarrow> string" where
  "join_comma [] = []"
| "join_comma [x] = x"
| "join_comma (x # y # ys) = x @ CHR '','' # join_comma (y # ys)"

text \<open>
  \<open>String(v)\<close> for a thrown value that is not an \<open>Error\<close>. An array joins the strings of
  its elements with commas, \<open>null\<close> and \<open>undefined\<close> elements giving the empty string; a
  plain object gives \<open>[object Object]\<close>.
\<close>

fun js_String :: "jsval \<Rightarrow> string" where
  "js_String JUndefined = ''undefined''"
| "js_String JNull = ''null''"
| "js_String (JBool b) = (if b then ''true'' else ''false'')"
| "js_String (JNumber n) = num_to_string n"
| "js_String (JString s) = s"
| "js_String (JArray xs) =
     join_comma (map (\<lambda>x. if x = JUndefined \<or> x = JNull then [] else js_String x) xs)"
| "js_String (JObject fs) = ''[object Object]''"

section \<open>Failures and their classification\<close>

text \<open>
  What a \<open>catch\<close> clause receives: an \<open>Error\<close> instance, of which the connector reads
  the \<open>message\<close> only, or any other thrown value.
\<close>

datatype thrown = ErrorObj string | NonError jsval

definition retryErrorCodes :: "string list" where
  "retryErrorCodes = [''107'', ''100'', ''170'', ''201'']"

text \<open>\<open>if (err instanceof Error) message = err.message else message = String(err)\<close>\<close>

fun error_message :: "thrown \<Rightarrow> string" where
  "error_message (ErrorObj m) = m"
| "error_message (NonError v) = js_String v"

text \<open>
  \<open>retryErrorCodes.includes(message) || message == "parent cluster object has been closed"\<close>
\<close>

definition is_retryable :: "thrown \<Rightarrow> bool" where
  "is_retryable err =
     (error_message err \<in> set retryErrorCodes \<or>
      error_message err = ''parent cluster object has been closed'')"

definition max_retries_error :: thrown where
  "max_retries_error = ErrorObj ''Couchbase max retries exceeded''"

section \<open>The store client and the connector's state\<close>

text \<open>
  A connection handle is named by the number of the handshake that produced it; the bucket
  derived from a cluster (\<open>cluster.bucket(name)\<close>, with \<open>bucket.cluster\<close> leading back) carries
  the same name.
\<close>

type_synonym handle = nat

text \<open>The calls the connector makes on a handle.\<close>

datatype operation =
    Query string
  | KvGet string
  | KvUpsert string jsval
  | KvRemove string

text \<open>
  The result objects of the client (\<open>QueryResult\<close>, \<open>GetResult\<close>, \<open>MutationResult\<close>) are
  objects, given by their properties; reading a property that is absent gives \<open>undefined\<close>.
\<close>

type_synonym result_object = "(string \<times> jsval) list"

definition property :: "result_object \<Rightarrow> string \<Rightarrow> jsval" where
  "property obj name = (case map_of obj name of Some v \<Rightarrow> v | None \<Rightarrow> JUndefined)"

datatype outcome = Returns result_object | Throws thrown

text \<open>
  The client library and the cluster behind it are the environment. \<open>handshake w k\<close> is
  the fate of the \<open>k\<close>-th call of the library's \<open>connect\<close>: \<open>None\<close> when it resolves (with
  handle \<open>k\<close>), \<open>Some e\<close> when it rejects with \<open>e\<close>. \<open>store_call w i h op\<close> is the outcome
  of the \<open>i\<close>-th call made on the store, on handle \<open>h\<close>.
\<close>

record world =
  handshake :: "nat \<Rightarrow> thrown option"
  store_call :: "nat \<Rightarrow> handle \<Rightarrow> operation \<Rightarrow> outcome"

datatype log_entry = ConsoleError thrown | ConsoleLogUnexpected thrown

record SqlQuery =
  sql :: string

record CouchbaseConfig =
  certificatePath :: string
  username :: string
  password :: string
  bucketName :: string
  maxRetries :: jsnum
  connectionString :: string
  bucket_field :: string

subsection \<open>The key-value capable connector\<close>

text \<open>
  \<open>config\<close>, \<open>cluster\<close> and \<open>bucket\<close> are the fields of the class. The others record what
  the instance has done to its environment: \<open>handshakes\<close> counts the calls of the library's
  \<open>connect\<close>, \<open>pending\<close> lists the handshakes started by a \<open>this.connect()\<close> that nobody
  awaits (their assignments to \<open>cluster\<close> and \<open>bucket\<close> happen if and when they resolve,
  and no call of the connector reads these two fields), \<open>attempts\<close> lists the store calls
  with the handle each ran on, \<open>console\<close> is what was logged.
\<close>

record connector =
  config :: CouchbaseConfig
  cluster :: "handle option"
  bucket :: "handle option"
  handshakes :: nat
  pending :: "handle list"
  attempts :: "(handle \<times> operation) list"
  console :: "log_entry list"

text \<open>\<open>await this.connect()\<close>\<close>

definition connect :: "world \<Rightarrow> connector \<Rightarrow> (thrown + handle) \<times> connector" where
  "connect w s =
     (let k = handshakes s; s1 = s\<lparr>handshakes := k + 1\<rparr> in
      case handshake w k of
        Some e \<Rightarrow> (Inl e, s1)
      | None \<Rightarrow> (Inr k, s1\<lparr>cluster := Some k, bucket := Some k\<rparr>))"

text \<open>
  \<open>this.connect()\<close> as a statement: the library's \<open>connect\<close> is called, and the caller goes
  on without the result.
\<close>

definition connect_detached :: "connector \<Rightarrow> connector" where
  "connect_detached s = s\<lparr>handshakes := handshakes s + 1, pending := pending s @ [handshakes s]\<rparr>"

text \<open>One call on the store, on handle \<open>h\<close>.\<close>

definition store_run :: "world \<Rightarrow> handle \<Rightarrow> operation \<Rightarrow> connector \<Rightarrow> outcome \<times> connector" where
  "store_run w h opn s =
     (store_call w (length (attempts s)) h opn, s\<lparr>attempts := attempts s @ [(h, opn)]\<rparr>)"

definition log_console :: "log_entry \<Rightarrow> connector \<Rightarrow> connector" where
  "log_console e s = s\<lparr>console := console s @ [e]\<rparr>"

type_synonym 'a result = "(thrown + 'a) \<times> connector"

text \<open>
  The \<open>catch\<close> block shared, word for word, by \<open>internalQuery\<close> and
  \<open>internalKeyValueStatement\<close>, up to the recursive call: \<open>Inl\<close> is what the block throws,
  \<open>Inr\<close> the budget of the retry.
\<close>

definition on_failure :: "thrown \<Rightarrow> jsnum \<Rightarrow> connector \<Rightarrow> (thrown + jsnum) \<times> connector" where
  "on_failure err retry s =
     (if is_retryable err then
        (let s1 = connect_detached s in
         if num_le_zero retry then (Inl max_retries_error, log_console (ConsoleError err) s1)
         else (Inr (if num_truthy retry then num_pred retry else maxRetries (config s1)), s1))
      else (Inl err, log_console (ConsoleLogUnexpected err) s))"

partial_function (option) internalQuery ::
  "world \<Rightarrow> SqlQuery \<Rightarrow> jsnum \<Rightarrow> connector \<Rightarrow> result_object result option" where
  "internalQuery w query retry s =
     (case connect w s of
        (Inl e, s1) \<Rightarrow> Some (Inl e, s1)
      | (Inr b, s1) \<Rightarrow>
          (case store_run w b (Query (sql query)) s1 of
             (Returns r, s2) \<Rightarrow> Some (Inr r, s2)
           | (Throws err, s2) \<Rightarrow>
               (case on_failure err retry s2 of
                  (Inl e, s3) \<Rightarrow> Some (Inl e, s3)
                | (Inr retry', s3) \<Rightarrow> internalQuery w query retry' s3)))"

text \<open>The call that \<open>internalKeyValueStatement\<close> makes in its \<open>try\<close> block.\<close>

definition kv_operation :: "string \<Rightarrow> jsval \<Rightarrow> bool \<Rightarrow> operation" where
  "kv_operation key val deletion =
     (if \<not> deletion then (if \<not> truthy val then KvGet key else KvUpsert key val)
      else KvRemove key)"

partial_function (option) internalKeyValueStatement ::
  "world \<Rightarrow> string \<Rightarrow> jsval \<Rightarrow> bool \<Rightarrow> jsnum \<Rightarrow> connector \<Rightarrow> result_object result option" where
  "internalKeyValueStatement w key val deletion retry s =
     (case connect w s of
        (Inl e, s1) \<Rightarrow> Some (Inl e, s1)
      | (Inr b, s1) \<Rightarrow>
          (case store_run w b (kv_operation key val deletion) s1 of
             (Returns r, s2) \<Rightarrow> Some (Inr r, s2)
           | (Throws err, s2) \<Rightarrow>
               (case on_failure err retry s2 of
                  (Inl e, s3) \<Rightarrow> Some (Inl e, s3)
                | (Inr retry', s3) \<Rightarrow> internalKeyValueStatement w key val deletion retry' s3)))"

text \<open>
  \<open>getSqlQuery\<close> comes from \<open>./utils\<close>; the facade is stated for any such function. Its
  argument is \<open>SqlQuery | string\<close>, and it may reject it.
\<close>

datatype query_input = QueryString string | QueryObject SqlQuery

type_synonym normaliser = "query_input \<Rightarrow> thrown + SqlQuery"

text \<open>The constructor: \<open>this.config = config\<close>, both handles \<open>null\<close>.\<close>

definition new_connector :: "CouchbaseConfig \<Rightarrow> connector" where
  "new_connector cfg =
     \<lparr>config = cfg, cluster = None, bucket = None, handshakes = 0, pending = [],
      attempts = [], console = []\<rparr>"

definition read :: "world \<Rightarrow> normaliser \<Rightarrow> query_input \<Rightarrow> connector \<Rightarrow> jsval result option" where
  "read w getSqlQuery query s =
     (case connect w s of
        (Inl e, s1) \<Rightarrow> Some (Inl e, s1)
      | (Inr b, s1) \<Rightarrow>
          (case getSqlQuery query of
             Inl e \<Rightarrow> Some (Inl e, s1)
           | Inr q \<Rightarrow>
               (case internalQuery w q (maxRetries (config s1)) s1 of
                  None \<Rightarrow> None
                | Some (Inl e, s2) \<Rightarrow> Some (Inl e, s2)
                | Some (Inr queryResult, s2) \<Rightarrow> Some (Inr (property queryResult ''rows''), s2))))"

record insert_query =
  id_field :: string
  value_field :: jsval

definition insert_kv :: "world \<Rightarrow> insert_query \<Rightarrow> connector \<Rightarrow> result_object result option" where
  "insert_kv w query s =
     (case connect w s of
        (Inl e, s1) \<Rightarrow> Some (Inl e, s1)
      | (Inr b, s1) \<Rightarrow>
          internalKeyValueStatement w (id_field query) (value_field query) False
            (maxRetries (config s1)) s1)"

text \<open>\<open>delete\<close> and \<open>get\<close> take \<open>{ id: string }\<close>, given here by the \<open>id\<close> itself.\<close>

definition delete_kv :: "world \<Rightarrow> string \<Rightarrow> connector \<Rightarrow> result_object result option" where
  "delete_kv w key s =
     (case connect w s of
        (Inl e, s1) \<Rightarrow> Some (Inl e, s1)
      | (Inr b, s1) \<Rightarrow>
          internalKeyValueStatement w key JNull True (maxRetries (config s1)) s1)"

definition get_kv :: "world \<Rightarrow> string \<Rightarrow> connector \<Rightarrow> jsval result option" where
  "get_kv w key s =
     (case connect w s of
        (Inl e, s1) \<Rightarrow> Some (Inl e, s1)
      | (Inr b, s1) \<Rightarrow>
          (case internalKeyValueStatement w key JNull False (maxRetries (config s1)) s1 of
             None \<Rightarrow> None
           | Some (Inl e, s2) \<Rightarrow> Some (Inl e, s2)
           | Some (Inr r, s2) \<Rightarrow> Some (Inr (property r ''content''), s2)))"

subsection \<open>The older, SQL-only connector\<close>

text \<open>
  Here the constructor makes the connection and \<open>cluster\<close> is never assigned again.
  \<open>connect_calls_v1\<close> counts the calls of \<open>this.connect()\<close>, which leave no other trace.
\<close>

record connector_v1 =
  config_v1 :: CouchbaseConfig
  cluster_v1 :: handle
  connect_calls_v1 :: nat
  attempts_v1 :: "(handle \<times> operation) list"
  console_v1 :: "log_entry list"

type_synonym 'a result_v1 = "(thrown + 'a) \<times> connector_v1"

text \<open>\<open>async connect() { return await this.cluster }\<close>\<close>

definition connect_v1 :: "connector_v1 \<Rightarrow> handle \<times> connector_v1" where
  "connect_v1 s = (cluster_v1 s, s\<lparr>connect_calls_v1 := connect_calls_v1 s + 1\<rparr>)"

definition store_run_v1 :: "world \<Rightarrow> handle \<Rightarrow> operation \<Rightarrow> connector_v1 \<Rightarrow> outcome \<times> connector_v1" where
  "store_run_v1 w h opn s =
     (store_call w (length (attempts_v1 s)) h opn, s\<lparr>attempts_v1 := attempts_v1 s @ [(h, opn)]\<rparr>)"

definition log_console_v1 :: "log_entry \<Rightarrow> connector_v1 \<Rightarrow> connector_v1" where
  "log_console_v1 e s = s\<lparr>console_v1 := console_v1 s @ [e]\<rparr>"

text \<open>The \<open>catch\<close> block of \<open>internalQuery\<close>, up to the recursive call.\<close>

definition on_failure_v1 :: "thrown \<Rightarrow> jsnum \<Rightarrow> connector_v1 \<Rightarrow> (thrown + jsnum) \<times> connector_v1" where
  "on_failure_v1 err retry s =
     (if is_retryable err then
        (let s1 = snd (connect_v1 s) in
         if num_le_zero retry then (Inl max_retries_error, log_console_v1 (ConsoleError err) s1)
         else (Inr (if num_truthy retry then num_pred retry else maxRetries (config_v1 s1)), s1))
      else (Inl err, log_console_v1 (ConsoleLogUnexpected err) s))"

partial_function (option) internalQuery_v1 ::
  "world \<Rightarrow> SqlQuery \<Rightarrow> jsnum \<Rightarrow> connector_v1 \<Rightarrow> result_object result_v1 option" where
  "internalQuery_v1 w query retry s =
     (case store_run_v1 w (cluster_v1 s) (Query (sql query)) s of
        (Returns r, s2) \<Rightarrow> Some (Inr r, s2)
      | (Throws err, s2) \<Rightarrow>
          (case on_failure_v1 err retry s2 of
             (Inl e, s3) \<Rightarrow> Some (Inl e, s3)
           | (Inr retry', s3) \<Rightarrow> internalQuery_v1 w query retry' s3))"

text \<open>
  \<open>read\<close>: \<open>await this.connect()\<close>, then \<open>internalQuery\<close>, then \<open>response.recordset\<close>.
\<close>

definition read_v1 :: "world \<Rightarrow> normaliser \<Rightarrow> query_input \<Rightarrow> connector_v1 \<Rightarrow> jsval result_v1 option" where
  "read_v1 w getSqlQuery query s =
     (let s1 = snd (connect_v1 s) in
      case getSqlQuery query of
        Inl e \<Rightarrow> Some (Inl e, s1)
      | Inr q \<Rightarrow>
          (case internalQuery_v1 w q (maxRetries (config_v1 s1)) s1 of
             None \<Rightarrow> None
           | Some (Inl e, s2) \<Rightarrow> Some (Inl e, s2)
           | Some (Inr response, s2) \<Rightarrow> Some (Inr (property response ''recordset''), s2)))"

section \<open>Observations on runs, and example environments\<close>

text \<open>
  \<open>fresh_run s s' opn\<close>: between \<open>s\<close> and \<open>s'\<close> every store call was the call \<open>opn\<close>, each
  on a handle whose handshake began after \<open>s\<close>, and no two on the same handle.
\<close>

definition fresh_run :: "connector \<Rightarrow> connector \<Rightarrow> operation \<Rightarrow> bool" where
  "fresh_run s s' opn \<longleftrightarrow>
     (\<exists>new. attempts s' = attempts s @ new \<and> sorted_wrt (<) (map fst new) \<and>
        (\<forall>a \<in> set new. handshakes s \<le> fst a \<and> fst a < handshakes s' \<and> snd a = opn)) \<and>
     handshakes s \<le> handshakes s'"

definition example_config :: "jsnum \<Rightarrow> CouchbaseConfig" where
  "example_config n =
     \<lparr>certificatePath = [], username = ''Administrator'', password = ''secret'',
      bucketName = ''travel'', maxRetries = n, connectionString = ''couchbase://localhost'',
      bucket_field = ''travel''\<rparr>"

definition example_query :: SqlQuery where
  "example_query = \<lparr>sql = ''SELECT * FROM travel''\<rparr>"

text \<open>A normaliser that wraps a string and leaves a query object alone.\<close>

definition example_getSqlQuery :: normaliser where
  "example_getSqlQuery input =
     (case input of QueryString text \<Rightarrow> Inr \<lparr>sql = text\<rparr> | QueryObject q \<Rightarrow> Inr q)"

text \<open>Every handshake resolves; every store call throws \<open>e\<close>.\<close>

definition always_throws :: "thrown \<Rightarrow> world" where
  "always_throws e = \<lparr>handshake = (\<lambda>k. None), store_call = (\<lambda>i h opn. Throws e)\<rparr>"

text \<open>Every handshake resolves; every store call returns \<open>r\<close>.\<close>

definition always_returns :: "result_object \<Rightarrow> world" where
  "always_returns r = \<lparr>handshake = (\<lambda>k. None), store_call = (\<lambda>i h opn. Returns r)\<rparr>"

text \<open>
  Every handshake resolves; handle \<open>c\<close> has been closed, every other handle answers with
  a query result of no rows.
\<close>

definition closed_handle :: "handle \<Rightarrow> world" where
  "closed_handle c =
     \<lparr>handshake = (\<lambda>k. None),
      store_call = (\<lambda>i h opn.
        if h = c then Throws (ErrorObj ''parent cluster object has been closed'')
        else Returns [(''meta'', JObject []), (''rows'', JArray [])])\<rparr>"


text \<open>
  A query result as the client gives it: the rows and the metadata of the query.
\<close>

definition example_result :: "jsval list \<Rightarrow> result_object" where
  "example_result rs = [(''meta'', JObject [(''status'', JString ''success'')]), (''rows'', JArray rs)]"

text \<open>An instance of the older connector whose constructor obtained handle \<open>0\<close>.\<close>

definition example_v1 :: "jsnum \<Rightarrow> connector_v1" where
  "example_v1 n =
     \<lparr>config_v1 = example_config n, cluster_v1 = 0, connect_calls_v1 = 0, attempts_v1 = [],
      console_v1 = []\<rparr>"

section \<open>One invocation of the retry executor\<close>

lemma double_round_exact: "\<bar>x\<bar> < 2 ^ 53 \<Longrightarrow> double_round x = x"
proof -
  assume b: "\<bar>x\<bar> < 2 ^ 53"
  then have "nat \<bar>x\<bar> < 2 ^ 53" by simp
  then have "ulp_at (nat \<bar>x\<bar>) = 1" by (subst ulp_at.simps) simp
  then have "double_round x = sgn x * \<bar>x\<bar>" by (simp add: double_round_def)
  then show ?thesis by (simp add: mult_sgn_abs)
qed




lemma connect_ok:
  "handshake w (handshakes s) = None \<Longrightarrow>
   connect w s = (Inr (handshakes s),
     s\<lparr>handshakes := handshakes s + 1, cluster := Some (handshakes s), bucket := Some (handshakes s)\<rparr>)"
  by (simp add: connect_def Let_def)

lemma connect_cases:
  "connect w s = (Inl e, s1) \<Longrightarrow>
     handshake w (handshakes s) = Some e \<and> s1 = s\<lparr>handshakes := handshakes s + 1\<rparr>"
  "connect w s = (Inr b, s1) \<Longrightarrow>
     handshake w (handshakes s) = None \<and> b = handshakes s \<and>
     s1 = s\<lparr>handshakes := handshakes s + 1, cluster := Some (handshakes s), bucket := Some (handshakes s)\<rparr>"
  by (auto simp: connect_def Let_def split: option.splits)

lemma failed_attempt_state:
  assumes hs: "handshake w (handshakes s) = None"
  shows "connect_detached (snd (store_run w (handshakes s) opn (snd (connect w s)))) =
      s\<lparr>handshakes := handshakes s + 2, cluster := Some (handshakes s), bucket := Some (handshakes s),
        pending := pending s @ [handshakes s + 1],
        attempts := attempts s @ [(handshakes s, opn)]\<rparr>"
  by (simp add: connect_ok [OF hs] store_run_def connect_detached_def)

lemma on_failure_fields:
  "on_failure err retry s = (x, s') \<Longrightarrow>
     attempts s' = attempts s \<and> handshakes s \<le> handshakes s' \<and> config s' = config s"
  by (auto simp: on_failure_def Let_def connect_detached_def log_console_def split: if_splits)


subsection \<open>\<open>internalQuery\<close>\<close>

lemma internalQuery_step:
  assumes "handshake w (handshakes s) = None"
  shows "internalQuery w q retry s =
     (case store_run w (handshakes s) (Query (sql q)) (snd (connect w s)) of
        (Returns r, s2) \<Rightarrow> Some (Inr r, s2)
      | (Throws err, s2) \<Rightarrow>
          (case on_failure err retry s2 of
             (Inl e, s3) \<Rightarrow> Some (Inl e, s3)
           | (Inr retry', s3) \<Rightarrow> internalQuery w q retry' s3))"
  by (subst internalQuery.simps) (simp add: connect_ok [OF assms])

lemma internalQuery_exhausted:
  assumes hs: "handshake w (handshakes s) = None"
    and st: "store_call w (length (attempts s)) (handshakes s) (Query (sql q)) = Throws err"
    and rt: "is_retryable err" and le: "num_le_zero retry"
  shows "internalQuery w q retry s = Some (Inl max_retries_error,
      s\<lparr>handshakes := handshakes s + 2, cluster := Some (handshakes s), bucket := Some (handshakes s),
        pending := pending s @ [handshakes s + 1],
        attempts := attempts s @ [(handshakes s, Query (sql q))],
        console := console s @ [ConsoleError err]\<rparr>)"
  by (subst internalQuery_step [OF hs])
    (simp add: connect_ok [OF hs] store_run_def st on_failure_def rt le connect_detached_def
      log_console_def Let_def)

lemma internalQuery_again:
  assumes hs: "handshake w (handshakes s) = None"
    and st: "store_call w (length (attempts s)) (handshakes s) (Query (sql q)) = Throws err"
    and rt: "is_retryable err" and le: "\<not> num_le_zero retry"
  shows "internalQuery w q retry s =
     internalQuery w q (if num_truthy retry then num_pred retry else maxRetries (config s))
      (s\<lparr>handshakes := handshakes s + 2, cluster := Some (handshakes s), bucket := Some (handshakes s),
        pending := pending s @ [handshakes s + 1],
        attempts := attempts s @ [(handshakes s, Query (sql q))]\<rparr>)"
proof -
  let ?s2 = "snd (store_run w (handshakes s) (Query (sql q)) (snd (connect w s)))"
  have run: "store_run w (handshakes s) (Query (sql q)) (snd (connect w s)) = (Throws err, ?s2)"
    by (simp add: connect_ok [OF hs] store_run_def st)
  have cfg: "config (connect_detached ?s2) = config s"
    by (simp add: failed_attempt_state [OF hs])
  have "internalQuery w q retry s =
      internalQuery w q (if num_truthy retry then num_pred retry else maxRetries (config s))
        (connect_detached ?s2)"
    by (subst internalQuery_step [OF hs], subst run) (simp add: on_failure_def rt le Let_def cfg)
  then show ?thesis
    by (simp only: failed_attempt_state [OF hs])
qed

lemma internalQuery_fatal:
  assumes hs: "handshake w (handshakes s) = None"
    and st: "store_call w (length (attempts s)) (handshakes s) (Query (sql q)) = Throws err"
    and rt: "\<not> is_retryable err"
  shows "internalQuery w q retry s = Some (Inl err,
      s\<lparr>handshakes := handshakes s + 1, cluster := Some (handshakes s), bucket := Some (handshakes s),
        attempts := attempts s @ [(handshakes s, Query (sql q))],
        console := console s @ [ConsoleLogUnexpected err]\<rparr>)"
  by (subst internalQuery_step [OF hs])
    (simp add: connect_ok [OF hs] store_run_def st on_failure_def rt log_console_def)

lemma internalQuery_success:
  assumes hs: "handshake w (handshakes s) = None"
    and st: "store_call w (length (attempts s)) (handshakes s) (Query (sql q)) = Returns r"
  shows "internalQuery w q retry s = Some (Inr r,
      s\<lparr>handshakes := handshakes s + 1, cluster := Some (handshakes s), bucket := Some (handshakes s),
        attempts := attempts s @ [(handshakes s, Query (sql q))]\<rparr>)"
  by (subst internalQuery_step [OF hs]) (simp add: connect_ok [OF hs] store_run_def st)


subsection \<open>\<open>internalKeyValueStatement\<close>\<close>

lemma internalKeyValueStatement_step:
  assumes "handshake w (handshakes s) = None"
  shows "internalKeyValueStatement w key val deletion retry s =
     (case store_run w (handshakes s) (kv_operation key val deletion) (snd (connect w s)) of
        (Returns r, s2) \<Rightarrow> Some (Inr r, s2)
      | (Throws err, s2) \<Rightarrow>
          (case on_failure err retry s2 of
             (Inl e, s3) \<Rightarrow> Some (Inl e, s3)
           | (Inr retry', s3) \<Rightarrow> internalKeyValueStatement w key val deletion retry' s3))"
  by (subst internalKeyValueStatement.simps) (simp add: connect_ok [OF assms])

lemma internalKeyValueStatement_exhausted:
  assumes hs: "handshake w (handshakes s) = None"
    and st: "store_call w (length (attempts s)) (handshakes s) (kv_operation key val deletion) = Throws err"
    and rt: "is_retryable err" and le: "num_le_zero retry"
  shows "internalKeyValueStatement w key val deletion retry s = Some (Inl max_retries_error,
      s\<lparr>handshakes := handshakes s + 2, cluster := Some (handshakes s), bucket := Some (handshakes s),
        pending := pending s @ [handshakes s + 1],
        attempts := attempts s @ [(handshakes s, kv_operation key val deletion)],
        console := console s @ [ConsoleError err]\<rparr>)"
  by (subst internalKeyValueStatement_step [OF hs])
    (simp add: connect_ok [OF hs] store_run_def st on_failure_def rt le connect_detached_def
      log_console_def Let_def)

lemma internalKeyValueStatement_again:
  assumes hs: "handshake w (handshakes s) = None"
    and st: "store_call w (length (attempts s)) (handshakes s) (kv_operation key val deletion) = Throws err"
    and rt: "is_retryable err" and le: "\<not> num_le_zero retry"
  shows "internalKeyValueStatement w key val deletion retry s =
     internalKeyValueStatement w key val deletion (if num_truthy retry then num_pred retry else maxRetries (config s))
      (s\<lparr>handshakes := handshakes s + 2, cluster := Some (handshakes s), bucket := Some (handshakes s),
        pending := pending s @ [handshakes s + 1],
        attempts := attempts s @ [(handshakes s, kv_operation key val deletion)]\<rparr>)"
proof -
  let ?s2 = "snd (store_run w (handshakes s) (kv_operation key val deletion) (snd (connect w s)))"
  have run: "store_run w (handshakes s) (kv_operation key val deletion) (snd (connect w s)) = (Throws err, ?s2)"
    by (simp add: connect_ok [OF hs] store_run_def st)
  have cfg: "config (connect_detached ?s2) = config s"
    by (simp add: failed_attempt_state [OF hs])
  have "internalKeyValueStatement w key val deletion retry s =
      internalKeyValueStatement w key val deletion (if num_truthy retry then num_pred retry else maxRetries (config s))
        (connect_detached ?s2)"
    by (subst internalKeyValueStatement_step [OF hs], subst run) (simp add: on_failure_def rt le Let_def cfg)
  then show ?thesis
    by (simp only: failed_attempt_state [OF hs])
qed

lemma internalKeyValueStatement_fatal:
  assumes hs: "handshake w (handshakes s) = None"
    and st: "store_call w (length (attempts s)) (handshakes s) (kv_operation key val deletion) = Throws err"
    and rt: "\<not> is_retryable err"
  shows "internalKeyValueStatement w key val deletion retry s = Some (Inl err,
      s\<lparr>handshakes := handshakes s + 1, cluster := Some (handshakes s), bucket := Some (handshakes s),
        attempts := attempts s @ [(handshakes s, kv_operation key val deletion)],
        console := console s @ [ConsoleLogUnexpected err]\<rparr>)"
  by (subst internalKeyValueStatement_step [OF hs])
    (simp add: connect_ok [OF hs] store_run_def st on_failure_def rt log_console_def)

lemma internalKeyValueStatement_success:
  assumes hs: "handshake w (handshakes s) = None"
    and st: "store_call w (length (attempts s)) (handshakes s) (kv_operation key val deletion) = Returns r"
  shows "internalKeyValueStatement w key val deletion retry s = Some (Inr r,
      s\<lparr>handshakes := handshakes s + 1, cluster := Some (handshakes s), bucket := Some (handshakes s),
        attempts := attempts s @ [(handshakes s, kv_operation key val deletion)]\<rparr>)"
  by (subst internalKeyValueStatement_step [OF hs]) (simp add: connect_ok [OF hs] store_run_def st)


subsection \<open>\<open>internalQuery\<close> of the older connector\<close>

lemma internalQuery_v1_exhausted:
  assumes st: "store_call w (length (attempts_v1 s)) (cluster_v1 s) (Query (sql q)) = Throws err"
    and rt: "is_retryable err" and le: "num_le_zero retry"
  shows "internalQuery_v1 w q retry s = Some (Inl max_retries_error,
      s\<lparr>connect_calls_v1 := connect_calls_v1 s + 1,
        attempts_v1 := attempts_v1 s @ [(cluster_v1 s, Query (sql q))],
        console_v1 := console_v1 s @ [ConsoleError err]\<rparr>)"
  by (subst internalQuery_v1.simps)
    (simp add: store_run_v1_def st on_failure_v1_def rt le connect_v1_def log_console_v1_def Let_def)

lemma internalQuery_v1_again:
  assumes st: "store_call w (length (attempts_v1 s)) (cluster_v1 s) (Query (sql q)) = Throws err"
    and rt: "is_retryable err" and le: "\<not> num_le_zero retry"
  shows "internalQuery_v1 w q retry s =
     internalQuery_v1 w q (if num_truthy retry then num_pred retry else maxRetries (config_v1 s))
      (s\<lparr>connect_calls_v1 := connect_calls_v1 s + 1,
        attempts_v1 := attempts_v1 s @ [(cluster_v1 s, Query (sql q))]\<rparr>)"
proof -
  let ?s2 = "snd (store_run_v1 w (cluster_v1 s) (Query (sql q)) s)"
  have run: "store_run_v1 w (cluster_v1 s) (Query (sql q)) s = (Throws err, ?s2)"
    by (simp add: store_run_v1_def st)
  have state: "snd (connect_v1 ?s2) =
      s\<lparr>connect_calls_v1 := connect_calls_v1 s + 1,
        attempts_v1 := attempts_v1 s @ [(cluster_v1 s, Query (sql q))]\<rparr>"
    by (simp add: store_run_v1_def connect_v1_def)
  have "internalQuery_v1 w q retry s =
      internalQuery_v1 w q (if num_truthy retry then num_pred retry else maxRetries (config_v1 s))
        (snd (connect_v1 ?s2))"
    by (subst internalQuery_v1.simps, subst run)
      (simp add: on_failure_v1_def rt le Let_def, simp add: state)
  then show ?thesis
    by (simp only: state)
qed

lemma internalQuery_v1_fatal:
  assumes st: "store_call w (length (attempts_v1 s)) (cluster_v1 s) (Query (sql q)) = Throws err"
    and rt: "\<not> is_retryable err"
  shows "internalQuery_v1 w q retry s = Some (Inl err,
      s\<lparr>attempts_v1 := attempts_v1 s @ [(cluster_v1 s, Query (sql q))],
        console_v1 := console_v1 s @ [ConsoleLogUnexpected err]\<rparr>)"
  by (subst internalQuery_v1.simps)
    (simp add: store_run_v1_def st on_failure_v1_def rt log_console_v1_def)

lemma internalQuery_v1_success:
  assumes st: "store_call w (length (attempts_v1 s)) (cluster_v1 s) (Query (sql q)) = Returns r"
  shows "internalQuery_v1 w q retry s = Some (Inr r,
      s\<lparr>attempts_v1 := attempts_v1 s @ [(cluster_v1 s, Query (sql q))]\<rparr>)"
  by (subst internalQuery_v1.simps) (simp add: store_run_v1_def st)


section \<open>The error classifier\<close>

text \<open>
  Claim C7. A caught failure is retryable exactly when its message is one of \<open>107\<close>,
  \<open>100\<close>, \<open>170\<close>, \<open>201\<close> or the text \<open>parent cluster object has been closed\<close>, where the
  message of an \<open>Error\<close> is its \<open>message\<close> and the message of any other thrown value is
  \<open>String\<close> of it; every other failure is fatal.
\<close>

theorem classifier_retryable_iff:
  "is_retryable err \<longleftrightarrow>
     (case err of ErrorObj m \<Rightarrow> m | NonError v \<Rightarrow> js_String v)
       \<in> {''107'', ''100'', ''170'', ''201'', ''parent cluster object has been closed''}"
  by (cases err) (auto simp: is_retryable_def retryErrorCodes_def)

theorem classifier_retryable_iff_witness:
  "is_retryable (ErrorObj ''170'') \<and>
   is_retryable (NonError (JNumber (Num 107))) \<and>
   is_retryable (NonError (JArray [JString ''201''])) \<and>
   \<not> is_retryable (ErrorObj ''107 '') \<and>
   \<not> is_retryable (ErrorObj ''Parent cluster object has been closed'') \<and>
   \<not> is_retryable (NonError (JNumber (Num (- 107)))) \<and>
   \<not> is_retryable (NonError JUndefined)"
  unfolding classifier_retryable_iff
  by (simp add: dec_digits.simps digit_char_def)

section \<open>Budgets that never run out\<close>




section \<open>The retry executor\<close>




text \<open>
  Claim C6. When the call on the store throws an error that the classifier does not mark
  retryable, the executor makes that one call only, starts no connect after it, logs the
  error as unexpected and throws the very same error.
\<close>

theorem fatal_failure_single_attempt:
  assumes fatal: "\<not> is_retryable err"
    and hs: "handshake w (handshakes s) = None"
    and st: "\<forall>opn. store_call w (length (attempts s)) (handshakes s) opn = Throws err"
    and st1: "store_call w (length (attempts_v1 t)) (cluster_v1 t) (Query (sql q)) = Throws err"
  shows "(\<exists>s'. internalQuery w q retry s = Some (Inl err, s') \<and>
            attempts s' = attempts s @ [(handshakes s, Query (sql q))] \<and>
            handshakes s' = handshakes s + 1 \<and> pending s' = pending s \<and>
            console s' = console s @ [ConsoleLogUnexpected err]) \<and>
         (\<exists>s'. internalKeyValueStatement w key val deletion retry s = Some (Inl err, s') \<and>
            attempts s' = attempts s @ [(handshakes s, kv_operation key val deletion)] \<and>
            handshakes s' = handshakes s + 1 \<and> pending s' = pending s \<and>
            console s' = console s @ [ConsoleLogUnexpected err]) \<and>
         (\<exists>t'. internalQuery_v1 w q retry t = Some (Inl err, t') \<and>
            attempts_v1 t' = attempts_v1 t @ [(cluster_v1 t, Query (sql q))] \<and>
            connect_calls_v1 t' = connect_calls_v1 t \<and>
            console_v1 t' = console_v1 t @ [ConsoleLogUnexpected err])"
proof -
  have "\<exists>s'. internalQuery w q retry s = Some (Inl err, s') \<and>
            attempts s' = attempts s @ [(handshakes s, Query (sql q))] \<and>
            handshakes s' = handshakes s + 1 \<and> pending s' = pending s \<and>
            console s' = console s @ [ConsoleLogUnexpected err]"
    using internalQuery_fatal [OF hs st [rule_format] fatal, of q retry] by simp
  moreover have "\<exists>s'. internalKeyValueStatement w key val deletion retry s = Some (Inl err, s') \<and>
            attempts s' = attempts s @ [(handshakes s, kv_operation key val deletion)] \<and>
            handshakes s' = handshakes s + 1 \<and> pending s' = pending s \<and>
            console s' = console s @ [ConsoleLogUnexpected err]"
    using internalKeyValueStatement_fatal [OF hs st [rule_format] fatal, of key val deletion retry]
    by simp
  moreover have "\<exists>t'. internalQuery_v1 w q retry t = Some (Inl err, t') \<and>
            attempts_v1 t' = attempts_v1 t @ [(cluster_v1 t, Query (sql q))] \<and>
            connect_calls_v1 t' = connect_calls_v1 t \<and>
            console_v1 t' = console_v1 t @ [ConsoleLogUnexpected err]"
    using internalQuery_v1_fatal [OF st1 fatal, of retry] by simp
  ultimately show ?thesis by blast
qed

theorem fatal_failure_single_attempt_witness:
  "(\<exists>s'. internalQuery (always_throws (ErrorObj ''syntax error'')) example_query (Num 3)
            (new_connector (example_config (Num 3))) = Some (Inl (ErrorObj ''syntax error''), s') \<and>
          attempts s' = [(0, Query ''SELECT * FROM travel'')] \<and> handshakes s' = 1 \<and>
          pending s' = [] \<and> console s' = [ConsoleLogUnexpected (ErrorObj ''syntax error'')]) \<and>
   (\<exists>s'. internalKeyValueStatement (always_throws (ErrorObj ''syntax error'')) ''k'' JNull False (Num 3)
            (new_connector (example_config (Num 3))) = Some (Inl (ErrorObj ''syntax error''), s') \<and>
          attempts s' = [(0, KvGet ''k'')] \<and> handshakes s' = 1 \<and>
          pending s' = [] \<and> console s' = [ConsoleLogUnexpected (ErrorObj ''syntax error'')]) \<and>
   (\<exists>t'. internalQuery_v1 (always_throws (ErrorObj ''syntax error'')) example_query (Num 3)
            (example_v1 (Num 3)) = Some (Inl (ErrorObj ''syntax error''), t') \<and>
          attempts_v1 t' = [(0, Query ''SELECT * FROM travel'')] \<and> connect_calls_v1 t' = 0 \<and>
          console_v1 t' = [ConsoleLogUnexpected (ErrorObj ''syntax error'')])"
  using fatal_failure_single_attempt [of "ErrorObj ''syntax error''"
      "always_throws (ErrorObj ''syntax error'')" "new_connector (example_config (Num 3))"
      "example_v1 (Num 3)" example_query "Num 3" "''k''" JNull False]
  by (simp add: always_throws_def is_retryable_def retryErrorCodes_def new_connector_def
      example_v1_def example_query_def kv_operation_def)

text \<open>
  Claim C10. When the call on the store throws a retryable error and the budget is
  \<open>\<le> 0\<close>, what the executor throws is a new \<open>Error\<close> with the message
  \<open>Couchbase max retries exceeded\<close>, which is not the error of the store; that error goes to
  \<open>console.error\<close> and nowhere else.
\<close>

theorem exhaustion_error_is_synthesized:
  assumes rt: "is_retryable err" and le: "num_le_zero retry"
    and hs: "handshake w (handshakes s) = None"
    and st: "\<forall>opn. store_call w (length (attempts s)) (handshakes s) opn = Throws err"
    and st1: "store_call w (length (attempts_v1 t)) (cluster_v1 t) (Query (sql q)) = Throws err"
  shows "(\<exists>s'. internalQuery w q retry s = Some (Inl (ErrorObj ''Couchbase max retries exceeded''), s') \<and>
            console s' = console s @ [ConsoleError err]) \<and>
         (\<exists>s'. internalKeyValueStatement w key val deletion retry s =
              Some (Inl (ErrorObj ''Couchbase max retries exceeded''), s') \<and>
            console s' = console s @ [ConsoleError err]) \<and>
         (\<exists>t'. internalQuery_v1 w q retry t =
              Some (Inl (ErrorObj ''Couchbase max retries exceeded''), t') \<and>
            console_v1 t' = console_v1 t @ [ConsoleError err]) \<and>
         ErrorObj ''Couchbase max retries exceeded'' \<noteq> err"
proof -
  have "\<exists>s'. internalQuery w q retry s = Some (Inl (ErrorObj ''Couchbase max retries exceeded''), s') \<and>
            console s' = console s @ [ConsoleError err]"
    using internalQuery_exhausted [OF hs st [rule_format] rt le, of q]
    by (simp add: max_retries_error_def)
  moreover have "\<exists>s'. internalKeyValueStatement w key val deletion retry s =
              Some (Inl (ErrorObj ''Couchbase max retries exceeded''), s') \<and>
            console s' = console s @ [ConsoleError err]"
    using internalKeyValueStatement_exhausted [OF hs st [rule_format] rt le, of key val deletion]
    by (simp add: max_retries_error_def)
  moreover have "\<exists>t'. internalQuery_v1 w q retry t =
              Some (Inl (ErrorObj ''Couchbase max retries exceeded''), t') \<and>
            console_v1 t' = console_v1 t @ [ConsoleError err]"
    using internalQuery_v1_exhausted [OF st1 rt le]
    by (simp add: max_retries_error_def)
  moreover have "ErrorObj ''Couchbase max retries exceeded'' \<noteq> err"
    using rt by (auto simp: is_retryable_def retryErrorCodes_def)
  ultimately show ?thesis by blast
qed

theorem exhaustion_error_is_synthesized_witness:
  "(\<exists>s'. internalQuery (always_throws (ErrorObj ''201'')) example_query (Num 0)
            (new_connector (example_config (Num 0))) =
              Some (Inl (ErrorObj ''Couchbase max retries exceeded''), s') \<and>
          console s' = [ConsoleError (ErrorObj ''201'')]) \<and>
   (\<exists>s'. internalKeyValueStatement (always_throws (ErrorObj ''201'')) ''k'' JNull True (Num 0)
            (new_connector (example_config (Num 0))) =
              Some (Inl (ErrorObj ''Couchbase max retries exceeded''), s') \<and>
          console s' = [ConsoleError (ErrorObj ''201'')]) \<and>
   (\<exists>t'. internalQuery_v1 (always_throws (ErrorObj ''201'')) example_query (Num 0)
            (example_v1 (Num 0)) = Some (Inl (ErrorObj ''Couchbase max retries exceeded''), t') \<and>
          console_v1 t' = [ConsoleError (ErrorObj ''201'')])"
  using exhaustion_error_is_synthesized [of "ErrorObj ''201''" "Num 0"
      "always_throws (ErrorObj ''201'')" "new_connector (example_config (Num 0))"
      "example_v1 (Num 0)" example_query "''k''" JNull True]
  by (simp add: always_throws_def is_retryable_def retryErrorCodes_def new_connector_def
      example_v1_def example_query_def)

text \<open>
  Claim C3, as stated, fails. With \<open>maxRetries = 0\<close> and a store that throws \<open>107\<close>,
  \<open>read\<close> ends with three handshakes begun: the one of \<open>read\<close>, the one of \<open>internalQuery\<close>
  on whose handle the single call ran, and a third, begun by the \<open>this.connect()\<close> that the
  \<open>catch\<close> block calls before it looks at the budget. The older connector calls \<open>connect\<close>
  twice, once in \<open>read\<close> and once in the \<open>catch\<close> block.
\<close>

theorem exhaustion_path_connects_counterexample:
  "(\<exists>s'. read (always_throws (ErrorObj ''107'')) example_getSqlQuery (QueryString ''SELECT 1'')
            (new_connector (example_config (Num 0))) = Some (Inl max_retries_error, s') \<and>
          attempts s' = [(1, Query ''SELECT 1'')] \<and> handshakes s' = 3 \<and> pending s' = [2]) \<and>
   (\<exists>t'. read_v1 (always_throws (ErrorObj ''107'')) example_getSqlQuery (QueryString ''SELECT 1'')
            (example_v1 (Num 0)) = Some (Inl max_retries_error, t') \<and>
          attempts_v1 t' = [(0, Query ''SELECT 1'')] \<and> connect_calls_v1 t' = 2)"
proof -
  let ?w = "always_throws (ErrorObj ''107'')"
  let ?s1 = "(new_connector (example_config (Num 0)))\<lparr>handshakes := 1, cluster := Some 0, bucket := Some 0\<rparr>"
  have "internalQuery ?w \<lparr>sql = ''SELECT 1''\<rparr> (Num 0) ?s1 = Some (Inl max_retries_error,
      ?s1\<lparr>handshakes := handshakes ?s1 + 2, cluster := Some (handshakes ?s1),
        bucket := Some (handshakes ?s1), pending := pending ?s1 @ [handshakes ?s1 + 1],
        attempts := attempts ?s1 @ [(handshakes ?s1, Query (sql \<lparr>sql = ''SELECT 1''\<rparr>))],
        console := console ?s1 @ [ConsoleError (ErrorObj ''107'')]\<rparr>)"
    by (rule internalQuery_exhausted)
      (simp_all add: always_throws_def is_retryable_def retryErrorCodes_def)
  then have v2: "\<exists>s'. read ?w example_getSqlQuery (QueryString ''SELECT 1'')
            (new_connector (example_config (Num 0))) = Some (Inl max_retries_error, s') \<and>
          attempts s' = [(1, Query ''SELECT 1'')] \<and> handshakes s' = 3 \<and> pending s' = [2]"
    by (simp add: read_def connect_def always_throws_def example_getSqlQuery_def
        new_connector_def example_config_def eval_nat_numeral)
  let ?t1 = "(example_v1 (Num 0))\<lparr>connect_calls_v1 := 1\<rparr>"
  have "internalQuery_v1 ?w \<lparr>sql = ''SELECT 1''\<rparr> (Num 0) ?t1 = Some (Inl max_retries_error,
      ?t1\<lparr>connect_calls_v1 := connect_calls_v1 ?t1 + 1,
        attempts_v1 := attempts_v1 ?t1 @ [(cluster_v1 ?t1, Query (sql \<lparr>sql = ''SELECT 1''\<rparr>))],
        console_v1 := console_v1 ?t1 @ [ConsoleError (ErrorObj ''107'')]\<rparr>)"
    by (rule internalQuery_v1_exhausted)
      (simp_all add: always_throws_def is_retryable_def retryErrorCodes_def)
  then have v1: "\<exists>t'. read_v1 ?w example_getSqlQuery (QueryString ''SELECT 1'')
            (example_v1 (Num 0)) = Some (Inl max_retries_error, t') \<and>
          attempts_v1 t' = [(0, Query ''SELECT 1'')] \<and> connect_calls_v1 t' = 2"
    by (simp add: read_v1_def Let_def example_getSqlQuery_def connect_v1_def example_v1_def
        example_config_def eval_nat_numeral)
  from v2 v1 show ?thesis by blast
qed

text \<open>
  Claim C3, amended. With a budget of \<open>0\<close>, when the call on the store throws a retryable
  error, the executor throws \<open>Couchbase max retries exceeded\<close> after that single call and
  makes no retry; before it looks at the budget it has called \<open>this.connect()\<close> once,
  without awaiting it, which in the key-value capable connector begins one more handshake.
\<close>

theorem zero_budget_exhaustion:
  assumes rt: "is_retryable err"
    and hs: "handshake w (handshakes s) = None"
    and st: "store_call w (length (attempts s)) (handshakes s) (Query (sql q)) = Throws err"
    and st1: "store_call w (length (attempts_v1 t)) (cluster_v1 t) (Query (sql q)) = Throws err"
  shows "(\<exists>s'. internalQuery w q (Num 0) s = Some (Inl max_retries_error, s') \<and>
            attempts s' = attempts s @ [(handshakes s, Query (sql q))] \<and>
            handshakes s' = handshakes s + 2 \<and> pending s' = pending s @ [handshakes s + 1]) \<and>
         (\<exists>t'. internalQuery_v1 w q (Num 0) t = Some (Inl max_retries_error, t') \<and>
            attempts_v1 t' = attempts_v1 t @ [(cluster_v1 t, Query (sql q))] \<and>
            connect_calls_v1 t' = connect_calls_v1 t + 1)"
proof -
  have "\<exists>s'. internalQuery w q (Num 0) s = Some (Inl max_retries_error, s') \<and>
            attempts s' = attempts s @ [(handshakes s, Query (sql q))] \<and>
            handshakes s' = handshakes s + 2 \<and> pending s' = pending s @ [handshakes s + 1]"
    using internalQuery_exhausted [OF hs st rt, of "Num 0"] by simp
  moreover have "\<exists>t'. internalQuery_v1 w q (Num 0) t = Some (Inl max_retries_error, t') \<and>
            attempts_v1 t' = attempts_v1 t @ [(cluster_v1 t, Query (sql q))] \<and>
            connect_calls_v1 t' = connect_calls_v1 t + 1"
    using internalQuery_v1_exhausted [OF st1 rt, of "Num 0"] by simp
  ultimately show ?thesis by blast
qed

theorem zero_budget_exhaustion_witness:
  "(\<exists>s'. internalQuery (always_throws (ErrorObj ''100'')) example_query (Num 0)
            (new_connector (example_config (Num 0))) = Some (Inl max_retries_error, s') \<and>
          attempts s' = [(0, Query ''SELECT * FROM travel'')] \<and>
          handshakes s' = 2 \<and> pending s' = [1]) \<and>
   (\<exists>t'. internalQuery_v1 (always_throws (ErrorObj ''100'')) example_query (Num 0)
            (example_v1 (Num 0)) = Some (Inl max_retries_error, t') \<and>
          attempts_v1 t' = [(0, Query ''SELECT * FROM travel'')] \<and> connect_calls_v1 t' = 1)"
  using zero_budget_exhaustion [of "ErrorObj ''100''" "always_throws (ErrorObj ''100'')"
      "new_connector (example_config (Num 0))" example_query "example_v1 (Num 0)"]
  by (simp add: always_throws_def is_retryable_def retryErrorCodes_def new_connector_def
      example_v1_def example_query_def eval_nat_numeral)

text \<open>
  Claim C2, as stated, fails at its own example. The budget \<open>0\<close> is falsy, the configured
  \<open>maxRetries\<close> is \<open>3\<close> and the store throws \<open>107\<close>: each executor makes one call and
  throws \<open>Couchbase max retries exceeded\<close>. No retry is made, with any budget.
\<close>

theorem zero_budget_reset_counterexample:
  "\<not> num_truthy (Num 0) \<and>
   (\<exists>s'. internalQuery (always_throws (ErrorObj ''107'')) example_query (Num 0)
            (new_connector (example_config (Num 3))) = Some (Inl max_retries_error, s') \<and>
          attempts s' = [(0, Query ''SELECT * FROM travel'')]) \<and>
   (\<exists>s'. internalKeyValueStatement (always_throws (ErrorObj ''107'')) ''k'' (JString ''v'') False
            (Num 0) (new_connector (example_config (Num 3))) = Some (Inl max_retries_error, s') \<and>
          attempts s' = [(0, KvUpsert ''k'' (JString ''v''))]) \<and>
   (\<exists>t'. internalQuery_v1 (always_throws (ErrorObj ''107'')) example_query (Num 0)
            (example_v1 (Num 3)) = Some (Inl max_retries_error, t') \<and>
          attempts_v1 t' = [(0, Query ''SELECT * FROM travel'')])"
proof -
  let ?w = "always_throws (ErrorObj ''107'')"
  have rt: "is_retryable (ErrorObj ''107'')"
    by (simp add: is_retryable_def retryErrorCodes_def)
  have "\<exists>s'. internalQuery ?w example_query (Num 0) (new_connector (example_config (Num 3))) =
            Some (Inl max_retries_error, s') \<and>
          attempts s' = [(0, Query ''SELECT * FROM travel'')]"
    using internalQuery_exhausted [of ?w "new_connector (example_config (Num 3))" example_query
        "ErrorObj ''107''" "Num 0", OF _ _ rt]
    by (simp add: always_throws_def new_connector_def example_query_def)
  moreover have "\<exists>s'. internalKeyValueStatement ?w ''k'' (JString ''v'') False (Num 0)
            (new_connector (example_config (Num 3))) = Some (Inl max_retries_error, s') \<and>
          attempts s' = [(0, KvUpsert ''k'' (JString ''v''))]"
    using internalKeyValueStatement_exhausted [of ?w "new_connector (example_config (Num 3))"
        "''k''" "JString ''v''" False "ErrorObj ''107''" "Num 0", OF _ _ rt]
    by (simp add: always_throws_def new_connector_def kv_operation_def)
  moreover have "\<exists>t'. internalQuery_v1 ?w example_query (Num 0) (example_v1 (Num 3)) =
            Some (Inl max_retries_error, t') \<and>
          attempts_v1 t' = [(0, Query ''SELECT * FROM travel'')]"
    using internalQuery_v1_exhausted [of ?w "example_v1 (Num 3)" example_query
        "ErrorObj ''107''" "Num 0", OF _ rt]
    by (simp add: always_throws_def example_v1_def example_query_def)
  ultimately show ?thesis by simp
qed

text \<open>
  Claim C2, amended. Let the budget be falsy and the call on the store throw a retryable
  error. A falsy budget is \<open>0\<close> or \<open>NaN\<close>. With \<open>0\<close> the executor throws
  \<open>Couchbase max retries exceeded\<close> after that one call. With \<open>NaN\<close>, which is not \<open>\<le> 0\<close>,
  the executor goes on as it would with the configured \<open>maxRetries\<close> as its budget.
\<close>

theorem falsy_budget:
  assumes falsy: "\<not> num_truthy retry"
    and rt: "is_retryable err"
    and hs: "handshake w (handshakes s) = None"
    and st: "\<forall>opn. store_call w (length (attempts s)) (handshakes s) opn = Throws err"
    and st1: "store_call w (length (attempts_v1 t)) (cluster_v1 t) (Query (sql q)) = Throws err"
  shows "(retry = Num 0 \<or> retry = NaN) \<and>
     (retry = Num 0 \<longrightarrow>
        (\<exists>s'. internalQuery w q retry s = Some (Inl max_retries_error, s') \<and>
           attempts s' = attempts s @ [(handshakes s, Query (sql q))]) \<and>
        (\<exists>s'. internalKeyValueStatement w key val deletion retry s = Some (Inl max_retries_error, s') \<and>
           attempts s' = attempts s @ [(handshakes s, kv_operation key val deletion)]) \<and>
        (\<exists>t'. internalQuery_v1 w q retry t = Some (Inl max_retries_error, t') \<and>
           attempts_v1 t' = attempts_v1 t @ [(cluster_v1 t, Query (sql q))])) \<and>
     (retry = NaN \<longrightarrow>
        internalQuery w q retry s =
          internalQuery w q (maxRetries (config s))
            (s\<lparr>handshakes := handshakes s + 2, cluster := Some (handshakes s),
               bucket := Some (handshakes s), pending := pending s @ [handshakes s + 1],
               attempts := attempts s @ [(handshakes s, Query (sql q))]\<rparr>) \<and>
        internalKeyValueStatement w key val deletion retry s =
          internalKeyValueStatement w key val deletion (maxRetries (config s))
            (s\<lparr>handshakes := handshakes s + 2, cluster := Some (handshakes s),
               bucket := Some (handshakes s), pending := pending s @ [handshakes s + 1],
               attempts := attempts s @ [(handshakes s, kv_operation key val deletion)]\<rparr>) \<and>
        internalQuery_v1 w q retry t =
          internalQuery_v1 w q (maxRetries (config_v1 t))
            (t\<lparr>connect_calls_v1 := connect_calls_v1 t + 1,
               attempts_v1 := attempts_v1 t @ [(cluster_v1 t, Query (sql q))]\<rparr>))"
proof (intro conjI impI)
  show "retry = Num 0 \<or> retry = NaN"
    using falsy by (cases retry) simp_all
next
  assume "retry = Num 0"
  then show "\<exists>s'. internalQuery w q retry s = Some (Inl max_retries_error, s') \<and>
           attempts s' = attempts s @ [(handshakes s, Query (sql q))]"
    using internalQuery_exhausted [where q = q and retry = retry, OF hs st [rule_format] rt] by simp
next
  assume "retry = Num 0"
  then show "\<exists>s'. internalKeyValueStatement w key val deletion retry s = Some (Inl max_retries_error, s') \<and>
           attempts s' = attempts s @ [(handshakes s, kv_operation key val deletion)]"
    using internalKeyValueStatement_exhausted [where key = key and val = val and deletion = deletion and
        retry = retry, OF hs st [rule_format] rt]
    by simp
next
  assume "retry = Num 0"
  then show "\<exists>t'. internalQuery_v1 w q retry t = Some (Inl max_retries_error, t') \<and>
           attempts_v1 t' = attempts_v1 t @ [(cluster_v1 t, Query (sql q))]"
    using internalQuery_v1_exhausted [where retry = retry, OF st1 rt] by simp
next
  assume "retry = NaN"
  then show "internalQuery w q retry s =
          internalQuery w q (maxRetries (config s))
            (s\<lparr>handshakes := handshakes s + 2, cluster := Some (handshakes s),
               bucket := Some (handshakes s), pending := pending s @ [handshakes s + 1],
               attempts := attempts s @ [(handshakes s, Query (sql q))]\<rparr>)"
    using internalQuery_again [where q = q and retry = retry, OF hs st [rule_format] rt] by simp
next
  assume "retry = NaN"
  then show "internalKeyValueStatement w key val deletion retry s =
          internalKeyValueStatement w key val deletion (maxRetries (config s))
            (s\<lparr>handshakes := handshakes s + 2, cluster := Some (handshakes s),
               bucket := Some (handshakes s), pending := pending s @ [handshakes s + 1],
               attempts := attempts s @ [(handshakes s, kv_operation key val deletion)]\<rparr>)"
    using internalKeyValueStatement_again [where key = key and val = val and deletion = deletion and
        retry = retry, OF hs st [rule_format] rt]
    by simp
next
  assume "retry = NaN"
  then show "internalQuery_v1 w q retry t =
          internalQuery_v1 w q (maxRetries (config_v1 t))
            (t\<lparr>connect_calls_v1 := connect_calls_v1 t + 1,
               attempts_v1 := attempts_v1 t @ [(cluster_v1 t, Query (sql q))]\<rparr>)"
    using internalQuery_v1_again [where retry = retry, OF st1 rt] by simp
qed

theorem falsy_budget_witness:
  "internalQuery (always_throws (ErrorObj ''107'')) example_query NaN
     (new_connector (example_config (Num 1))) =
   internalQuery (always_throws (ErrorObj ''107'')) example_query (Num 1)
     ((new_connector (example_config (Num 1)))
        \<lparr>handshakes := 2, cluster := Some 0, bucket := Some 0, pending := [1],
         attempts := [(0, Query ''SELECT * FROM travel'')]\<rparr>) \<and>
   internalKeyValueStatement (always_throws (ErrorObj ''107'')) ''k'' JNull True NaN
     (new_connector (example_config (Num 1))) =
   internalKeyValueStatement (always_throws (ErrorObj ''107'')) ''k'' JNull True (Num 1)
     ((new_connector (example_config (Num 1)))
        \<lparr>handshakes := 2, cluster := Some 0, bucket := Some 0, pending := [1],
         attempts := [(0, KvRemove ''k'')]\<rparr>) \<and>
   internalQuery_v1 (always_throws (ErrorObj ''107'')) example_query NaN (example_v1 (Num 1)) =
   internalQuery_v1 (always_throws (ErrorObj ''107'')) example_query (Num 1)
     ((example_v1 (Num 1))
        \<lparr>connect_calls_v1 := 1, attempts_v1 := [(0, Query ''SELECT * FROM travel'')]\<rparr>)"
  using falsy_budget [of NaN "ErrorObj ''107''" "always_throws (ErrorObj ''107'')"
      "new_connector (example_config (Num 1))" "example_v1 (Num 1)" example_query
      "''k''" JNull True]
  by (simp add: always_throws_def is_retryable_def retryErrorCodes_def new_connector_def
      example_v1_def example_query_def example_config_def kv_operation_def eval_nat_numeral)

section \<open>The facade\<close>

text \<open>
  The newer \<open>read\<close>. Let the normaliser accept the query and the awaited connect of
  \<open>read\<close> resolve. Whenever the executor ends with a result of the store, \<open>read\<close> returns the
  \<open>rows\<close> of that result, whatever they are; and when the first call on the store returns,
  \<open>read\<close> does return.
\<close>

lemma read_returns_rows:
  assumes norm: "getSqlQuery input = Inr q"
    and hs: "handshake w (handshakes s) = None"
  shows "(\<forall>r s'. internalQuery w q (maxRetries (config s))
              (s\<lparr>handshakes := handshakes s + 1, cluster := Some (handshakes s),
                 bucket := Some (handshakes s)\<rparr>) = Some (Inr r, s') \<longrightarrow>
            read w getSqlQuery input s = Some (Inr (property r ''rows''), s')) \<and>
         (\<forall>r. handshake w (handshakes s + 1) = None \<and>
              store_call w (length (attempts s)) (handshakes s + 1) (Query (sql q)) = Returns r \<longrightarrow>
            (\<exists>s'. read w getSqlQuery input s = Some (Inr (property r ''rows''), s') \<and>
               attempts s' = attempts s @ [(handshakes s + 1, Query (sql q))]))"
proof (intro conjI allI impI)
  fix r s'
  assume "internalQuery w q (maxRetries (config s))
              (s\<lparr>handshakes := handshakes s + 1, cluster := Some (handshakes s),
                 bucket := Some (handshakes s)\<rparr>) = Some (Inr r, s')"
  then show "read w getSqlQuery input s = Some (Inr (property r ''rows''), s')"
    by (simp add: read_def connect_ok [OF hs] norm)
next
  fix r
  let ?s1 = "s\<lparr>handshakes := handshakes s + 1, cluster := Some (handshakes s),
                 bucket := Some (handshakes s)\<rparr>"
  assume a: "handshake w (handshakes s + 1) = None \<and>
     store_call w (length (attempts s)) (handshakes s + 1) (Query (sql q)) = Returns r"
  have "internalQuery w q (maxRetries (config s)) ?s1 = Some (Inr r,
      ?s1\<lparr>handshakes := handshakes ?s1 + 1, cluster := Some (handshakes ?s1),
        bucket := Some (handshakes ?s1),
        attempts := attempts ?s1 @ [(handshakes ?s1, Query (sql q))]\<rparr>)"
    by (rule internalQuery_success) (use a in simp_all)
  then show "\<exists>s'. read w getSqlQuery input s = Some (Inr (property r ''rows''), s') \<and>
               attempts s' = attempts s @ [(handshakes s + 1, Query (sql q))]"
    by (simp add: read_def connect_ok [OF hs] norm)
qed

text \<open>
  On a query result of two rows the newer \<open>read\<close> returns the two rows; on a query result
  of no rows it returns the empty sequence.
\<close>

lemma read_returns_rows_example:
  "(\<exists>s'. read (always_returns (example_result [JString ''a'', JString ''b''])) example_getSqlQuery
            (QueryString ''SELECT 1'') (new_connector (example_config (Num 3))) =
          Some (Inr (JArray [JString ''a'', JString ''b'']), s') \<and>
          attempts s' = [(1, Query ''SELECT 1'')]) \<and>
   (\<exists>s'. read (always_returns (example_result [])) example_getSqlQuery
            (QueryString ''SELECT 1'') (new_connector (example_config (Num 3))) =
          Some (Inr (JArray []), s') \<and> attempts s' = [(1, Query ''SELECT 1'')])"
proof -
  have "\<exists>s'. read (always_returns (example_result rs)) example_getSqlQuery
            (QueryString ''SELECT 1'') (new_connector (example_config (Num 3))) =
          Some (Inr (JArray rs), s') \<and> attempts s' = [(1, Query ''SELECT 1'')]" for rs
    using read_returns_rows [of example_getSqlQuery "QueryString ''SELECT 1''"
        "\<lparr>sql = ''SELECT 1''\<rparr>" "always_returns (example_result rs)"
        "new_connector (example_config (Num 3))",
        THEN conjunct2, rule_format, of "example_result rs"]
    by (simp add: example_getSqlQuery_def always_returns_def new_connector_def property_def
        example_result_def)
  then show ?thesis by blast
qed

text \<open>
  Claim C8 at the older connector. Its \<open>read\<close> returns \<open>response.recordset\<close>, and a query
  result has \<open>rows\<close> and \<open>meta\<close> and no \<open>recordset\<close>: when the store returns two rows, and
  when it returns none, the older \<open>read\<close> makes its one call on the store and returns
  \<open>undefined\<close>, not the rows and not an empty sequence.
\<close>

theorem read_v1_returns_undefined:
  "(\<exists>t'. read_v1 (always_returns (example_result [JString ''a'', JString ''b''])) example_getSqlQuery
            (QueryString ''SELECT 1'') (example_v1 (Num 3)) = Some (Inr JUndefined, t') \<and>
          attempts_v1 t' = [(0, Query ''SELECT 1'')]) \<and>
   (\<exists>t'. read_v1 (always_returns (example_result [])) example_getSqlQuery
            (QueryString ''SELECT 1'') (example_v1 (Num 3)) = Some (Inr JUndefined, t') \<and>
          attempts_v1 t' = [(0, Query ''SELECT 1'')])"
proof -
  have "\<exists>t'. read_v1 (always_returns (example_result rs)) example_getSqlQuery
            (QueryString ''SELECT 1'') (example_v1 (Num 3)) = Some (Inr JUndefined, t') \<and>
          attempts_v1 t' = [(0, Query ''SELECT 1'')]" for rs
  proof -
    let ?w = "always_returns (example_result rs)"
    let ?q = "\<lparr>sql = ''SELECT 1''\<rparr>"
    let ?t1 = "(example_v1 (Num 3))\<lparr>connect_calls_v1 := 1\<rparr>"
    have "internalQuery_v1 ?w ?q (Num 3) ?t1 = Some (Inr (example_result rs),
        ?t1\<lparr>attempts_v1 := attempts_v1 ?t1 @ [(cluster_v1 ?t1, Query (sql ?q))]\<rparr>)"
      by (rule internalQuery_v1_success) (simp add: always_returns_def)
    then show ?thesis
      by (simp add: read_v1_def connect_v1_def Let_def example_getSqlQuery_def example_v1_def
          example_config_def property_def example_result_def)
  qed
  then show ?thesis by blast
qed

section \<open>Which handle a call runs on\<close>

lemma fresh_run_refl: "fresh_run s s opn"
  by (simp add: fresh_run_def)

lemma fresh_run_step:
  assumes a: "attempts s2 = attempts s @ [(handshakes s, opn)]" and h: "handshakes s < handshakes s2"
    and r: "fresh_run s2 s' opn"
  shows "fresh_run s s' opn"
proof -
  from r obtain new where new: "attempts s' = attempts s2 @ new" "sorted_wrt (<) (map fst new)"
    "\<forall>a \<in> set new. handshakes s2 \<le> fst a \<and> fst a < handshakes s' \<and> snd a = opn"
    "handshakes s2 \<le> handshakes s'"
    unfolding fresh_run_def by blast
  have "attempts s' = attempts s @ ((handshakes s, opn) # new)" using a new(1) by simp
  moreover have "sorted_wrt (<) (map fst ((handshakes s, opn) # new))"
    using new(2,3) h by auto
  moreover have "\<forall>a \<in> set ((handshakes s, opn) # new). handshakes s \<le> fst a \<and> fst a < handshakes s' \<and> snd a = opn"
    using new(3,4) h by auto
  ultimately show ?thesis unfolding fresh_run_def using new(4) h by (metis less_imp_le_nat order_trans)
qed

lemma internalQuery_fresh:
  assumes "internalQuery w0 q0 retry0 s0 = Some y0"
  shows "fresh_run s0 (snd y0) (Query (sql q0))"
proof (rule internalQuery.raw_induct
    [where P = "\<lambda>w q retry s y. fresh_run s (snd y) (Query (sql q))", OF _ assms])
  fix f w q retry s y
  assume IH: "\<And>w q retry s y. f w q retry s = Some y \<Longrightarrow> fresh_run s (snd y) (Query (sql q))"
    and eq: "(case connect w s of
        (Inl e, s1) \<Rightarrow> Some (Inl e, s1)
      | (Inr b, s1) \<Rightarrow>
          (case store_run w b (Query (sql q)) s1 of
             (Returns r, s2) \<Rightarrow> Some (Inr r, s2)
           | (Throws err, s2) \<Rightarrow>
               (case on_failure err retry s2 of
                  (Inl e, s3) \<Rightarrow> Some (Inl e, s3)
                | (Inr retry', s3) \<Rightarrow> f w q retry' s3))) = Some y"
  show "fresh_run s (snd y) (Query (sql q))"
  proof (cases "connect w s")
    case (Pair c s1)
    show ?thesis
    proof (cases c)
      case (Inl e)
      with eq Pair connect_cases(1) [of w s e s1] show ?thesis
        by (auto simp: fresh_run_def)
    next
      case (Inr b)
      note cs = connect_cases(2) [OF Pair [unfolded Inr]]
      obtain o2 s2 where run: "store_run w b (Query (sql q)) s1 = (o2, s2)" by force
      have s2: "attempts s2 = attempts s @ [(handshakes s, Query (sql q))]" "handshakes s2 = handshakes s + 1"
        using run cs by (auto simp: store_run_def)
      show ?thesis
      proof (cases o2)
        case (Returns r)
        with eq Pair Inr run have "y = (Inr r, s2)" by simp
        then show ?thesis using fresh_run_step [OF s2(1) _ fresh_run_refl] s2(2) by simp
      next
        case (Throws err)
        obtain x s3 where of: "on_failure err retry s2 = (x, s3)" by force
        note f3 = on_failure_fields [OF of]
        have mid: "fresh_run s2 s3 (Query (sql q))" using f3 by (simp add: fresh_run_def)
        show ?thesis
        proof (cases x)
          case (Inl e)
          with eq Pair Inr run Throws of have "y = (Inl e, s3)" by simp
          then show ?thesis using fresh_run_step [OF s2(1) _ mid] s2(2) by simp
        next
          case (Inr retry')
          with eq Pair \<open>c = Inr b\<close> run Throws of have "f w q retry' s3 = Some y" by simp
          from IH [OF this] have "fresh_run s3 (snd y) (Query (sql q))" .
          then have "fresh_run s2 (snd y) (Query (sql q))"
            using f3 unfolding fresh_run_def by (auto intro: order_trans)
          then show ?thesis using fresh_run_step [OF s2(1)] s2(2) by simp
        qed
      qed
    qed
  qed
qed

lemma internalKeyValueStatement_fresh:
  assumes "internalKeyValueStatement w0 key0 val0 deletion0 retry0 s0 = Some y0"
  shows "fresh_run s0 (snd y0) (kv_operation key0 val0 deletion0)"
proof (rule internalKeyValueStatement.raw_induct
    [where P = "\<lambda>w key val deletion retry s y. fresh_run s (snd y) (kv_operation key val deletion)", OF _ assms])
  fix f w key val deletion retry s y
  assume IH: "\<And>w key val deletion retry s y. f w key val deletion retry s = Some y \<Longrightarrow> fresh_run s (snd y) (kv_operation key val deletion)"
    and eq: "(case connect w s of
        (Inl e, s1) \<Rightarrow> Some (Inl e, s1)
      | (Inr b, s1) \<Rightarrow>
          (case store_run w b (kv_operation key val deletion) s1 of
             (Returns r, s2) \<Rightarrow> Some (Inr r, s2)
           | (Throws err, s2) \<Rightarrow>
               (case on_failure err retry s2 of
                  (Inl e, s3) \<Rightarrow> Some (Inl e, s3)
                | (Inr retry', s3) \<Rightarrow> f w key val deletion retry' s3))) = Some y"
  show "fresh_run s (snd y) (kv_operation key val deletion)"
  proof (cases "connect w s")
    case (Pair c s1)
    show ?thesis
    proof (cases c)
      case (Inl e)
      with eq Pair connect_cases(1) [of w s e s1] show ?thesis
        by (auto simp: fresh_run_def)
    next
      case (Inr b)
      note cs = connect_cases(2) [OF Pair [unfolded Inr]]
      obtain o2 s2 where run: "store_run w b (kv_operation key val deletion) s1 = (o2, s2)" by force
      have s2: "attempts s2 = attempts s @ [(handshakes s, kv_operation key val deletion)]" "handshakes s2 = handshakes s + 1"
        using run cs by (auto simp: store_run_def)
      show ?thesis
      proof (cases o2)
        case (Returns r)
        with eq Pair Inr run have "y = (Inr r, s2)" by simp
        then show ?thesis using fresh_run_step [OF s2(1) _ fresh_run_refl] s2(2) by simp
      next
        case (Throws err)
        obtain x s3 where of: "on_failure err retry s2 = (x, s3)" by force
        note f3 = on_failure_fields [OF of]
        have mid: "fresh_run s2 s3 (kv_operation key val deletion)" using f3 by (simp add: fresh_run_def)
        show ?thesis
        proof (cases x)
          case (Inl e)
          with eq Pair Inr run Throws of have "y = (Inl e, s3)" by simp
          then show ?thesis using fresh_run_step [OF s2(1) _ mid] s2(2) by simp
        next
          case (Inr retry')
          with eq Pair \<open>c = Inr b\<close> run Throws of have "f w key val deletion retry' s3 = Some y" by simp
          from IH [OF this] have "fresh_run s3 (snd y) (kv_operation key val deletion)" .
          then have "fresh_run s2 (snd y) (kv_operation key val deletion)"
            using f3 unfolding fresh_run_def by (auto intro: order_trans)
          then show ?thesis using fresh_run_step [OF s2(1)] s2(2) by simp
        qed
      qed
    qed
  qed
qed

lemma internalKeyValueStatement_value:
  assumes run: "internalKeyValueStatement w0 key0 val0 deletion0 retry0 s0 = Some y0"
    and same: "kv_operation key0 val0 deletion0 = kv_operation key0 val' deletion0"
  shows "internalKeyValueStatement w0 key0 val' deletion0 retry0 s0 = Some y0"
proof -
  have "kv_operation key0 val0 deletion0 = kv_operation key0 val' deletion0 \<longrightarrow>
      internalKeyValueStatement w0 key0 val' deletion0 retry0 s0 = Some y0"
  proof (rule internalKeyValueStatement.raw_induct
      [where P = "\<lambda>w key val deletion retry s y.
         kv_operation key val deletion = kv_operation key val' deletion \<longrightarrow>
         internalKeyValueStatement w key val' deletion retry s = Some y", OF _ run])
    fix f w key val deletion retry s y
    assume IH: "\<And>w key val deletion retry s y. f w key val deletion retry s = Some y \<Longrightarrow>
        kv_operation key val deletion = kv_operation key val' deletion \<longrightarrow>
        internalKeyValueStatement w key val' deletion retry s = Some y"
      and eq: "(case connect w s of
          (Inl e, s1) \<Rightarrow> Some (Inl e, s1)
        | (Inr b, s1) \<Rightarrow>
            (case store_run w b (kv_operation key val deletion) s1 of
               (Returns r, s2) \<Rightarrow> Some (Inr r, s2)
             | (Throws err, s2) \<Rightarrow>
                 (case on_failure err retry s2 of
                    (Inl e, s3) \<Rightarrow> Some (Inl e, s3)
                  | (Inr retry', s3) \<Rightarrow> f w key val deletion retry' s3))) = Some y"
    show "kv_operation key val deletion = kv_operation key val' deletion \<longrightarrow>
        internalKeyValueStatement w key val' deletion retry s = Some y"
    proof
      assume k: "kv_operation key val deletion = kv_operation key val' deletion"
      show "internalKeyValueStatement w key val' deletion retry s = Some y"
        using eq k
        by (subst internalKeyValueStatement.simps)
          (auto split: prod.splits sum.splits outcome.splits intro: IH [rule_format])
    qed
  qed
  with same show ?thesis by simp
qed

lemma internalKeyValueStatement_cong_value:
  assumes same: "kv_operation key val deletion = kv_operation key val' deletion"
  shows "internalKeyValueStatement w key val deletion retry s =
     internalKeyValueStatement w key val' deletion retry s"
proof (cases "internalKeyValueStatement w key val deletion retry s")
  case (Some y)
  then show ?thesis using internalKeyValueStatement_value [OF Some same] by simp
next
  case None
  show ?thesis
  proof (cases "internalKeyValueStatement w key val' deletion retry s")
    case (Some y)
    then show ?thesis using internalKeyValueStatement_value [OF Some same [symmetric]] by simp
  next
    case n: None
    with None show ?thesis by simp
  qed
qed

text \<open>
  Claim C9. For a falsy \<open>value\<close>, \<open>insert\<close> makes no \<open>upsert\<close>: the call of the executor is
  \<open>get(key)\<close>, every call that \<open>insert\<close> makes on the store is that \<open>get\<close>, and \<open>insert\<close>
  returns the result object of which \<open>get\<close> returns the \<open>content\<close>.
\<close>

theorem insert_falsy_value_is_get:
  assumes falsy: "\<not> truthy v"
  shows "kv_operation k v False = KvGet k \<and>
     get_kv w k s =
       (case insert_kv w \<lparr>id_field = k, value_field = v\<rparr> s of
          None \<Rightarrow> None
        | Some (Inl e, s') \<Rightarrow> Some (Inl e, s')
        | Some (Inr r, s') \<Rightarrow> Some (Inr (property r ''content''), s')) \<and>
     (\<forall>res s'. insert_kv w \<lparr>id_field = k, value_field = v\<rparr> s = Some (res, s') \<longrightarrow>
        (\<exists>new. attempts s' = attempts s @ new \<and> (\<forall>a \<in> set new. snd a = KvGet k)))"
proof (intro conjI allI impI)
  show op: "kv_operation k v False = KvGet k"
    using falsy by (simp add: kv_operation_def)
  have same: "kv_operation k v False = kv_operation k JNull False"
    using falsy by (simp add: kv_operation_def)
  show "get_kv w k s =
       (case insert_kv w \<lparr>id_field = k, value_field = v\<rparr> s of
          None \<Rightarrow> None
        | Some (Inl e, s') \<Rightarrow> Some (Inl e, s')
        | Some (Inr r, s') \<Rightarrow> Some (Inr (property r ''content''), s'))"
    by (simp add: get_kv_def insert_kv_def internalKeyValueStatement_cong_value [OF same]
        split: prod.splits sum.splits option.splits)
  fix res s'
  assume run: "insert_kv w \<lparr>id_field = k, value_field = v\<rparr> s = Some (res, s')"
  show "\<exists>new. attempts s' = attempts s @ new \<and> (\<forall>a \<in> set new. snd a = KvGet k)"
  proof (cases "connect w s")
    case (Pair c s1)
    show ?thesis
    proof (cases c)
      case (Inl e)
      with run Pair connect_cases(1) [of w s e s1] show ?thesis
        by (auto simp: insert_kv_def)
    next
      case (Inr b)
      with run Pair have
        "internalKeyValueStatement w k v False (maxRetries (config s1)) s1 = Some (res, s')"
        by (simp add: insert_kv_def)
      from internalKeyValueStatement_fresh [OF this] obtain new where
        "attempts s' = attempts s1 @ new" "\<forall>a \<in> set new. snd a = kv_operation k v False"
        unfolding fresh_run_def by auto
      moreover have "attempts s1 = attempts s"
        using connect_cases(2) [OF Pair [unfolded Inr]] by simp
      ultimately show ?thesis using op by auto
    qed
  qed
qed

theorem insert_falsy_value_is_get_witness:
  "kv_operation ''k'' (JString []) False = KvGet ''k'' \<and>
   kv_operation ''k'' (JNumber (Num 0)) False = KvGet ''k'' \<and>
   (\<exists>s'. insert_kv (always_returns [(''content'', JString ''doc'')])
            \<lparr>id_field = ''k'', value_field = JString []\<rparr> (new_connector (example_config (Num 3))) =
          Some (Inr [(''content'', JString ''doc'')], s') \<and>
          attempts s' = [(1, KvGet ''k'')]) \<and>
   (\<exists>s'. get_kv (always_returns [(''content'', JString ''doc'')]) ''k''
            (new_connector (example_config (Num 3))) = Some (Inr (JString ''doc''), s'))"
proof -
  let ?w = "always_returns [(''content'', JString ''doc'')]"
  let ?s = "new_connector (example_config (Num 3))"
  let ?s1 = "?s\<lparr>handshakes := 1, cluster := Some 0, bucket := Some 0\<rparr>"
  note th = insert_falsy_value_is_get [of "JString []" "''k''" ?w ?s, simplified]
  note th0 = insert_falsy_value_is_get [of "JNumber (Num 0)" "''k''" ?w ?s, simplified]
  have op: "kv_operation ''k'' (JString []) False = KvGet ''k''" using th by blast
  have "internalKeyValueStatement ?w ''k'' (JString []) False (Num 3) ?s1 =
      Some (Inr [(''content'', JString ''doc'')],
        ?s1\<lparr>handshakes := handshakes ?s1 + 1, cluster := Some (handshakes ?s1),
          bucket := Some (handshakes ?s1),
          attempts := attempts ?s1 @ [(handshakes ?s1, kv_operation ''k'' (JString []) False)]\<rparr>)"
    by (rule internalKeyValueStatement_success) (simp_all add: always_returns_def)
  then have ins: "insert_kv ?w \<lparr>id_field = ''k'', value_field = JString []\<rparr> ?s =
      Some (Inr [(''content'', JString ''doc'')],
        ?s\<lparr>handshakes := 2, cluster := Some 1, bucket := Some 1, attempts := [(1, KvGet ''k'')]\<rparr>)"
    by (simp add: insert_kv_def connect_def always_returns_def new_connector_def example_config_def
        op eval_nat_numeral)
  have get: "get_kv ?w ''k'' ?s = Some (Inr (JString ''doc''),
        ?s\<lparr>handshakes := 2, cluster := Some 1, bucket := Some 1, attempts := [(1, KvGet ''k'')]\<rparr>)"
    using th ins by (simp add: property_def)
  from op th0 ins get show ?thesis
    by (simp add: new_connector_def)
qed

section \<open>Connecting again\<close>

text \<open>
  In the key-value capable connector two calls of \<open>connect\<close> in a row are two handshakes,
  and the handle of the second takes the place of the first in \<open>cluster\<close> and \<open>bucket\<close>.
\<close>

lemma connect_twice:
  assumes "handshake w (handshakes s) = None" and "handshake w (handshakes s + 1) = None"
  shows "\<exists>h1 s1 h2 s2. connect w s = (Inr h1, s1) \<and> connect w s1 = (Inr h2, s2) \<and> h1 \<noteq> h2 \<and>
     handshakes s2 = handshakes s + 2 \<and> cluster s1 = Some h1 \<and> bucket s1 = Some h1 \<and>
     cluster s2 = Some h2 \<and> bucket s2 = Some h2"
  using assms by (simp add: connect_def Let_def)

text \<open>
  Claim C4 at the older connector. \<open>connect\<close> hands out the handle that the constructor
  obtained: called twice it returns that handle twice, leaves \<open>cluster\<close> as it was and
  touches neither the client library nor the store.
\<close>

theorem connect_v1_returns_the_same_handle:
  "fst (connect_v1 t) = cluster_v1 t \<and>
   fst (connect_v1 (snd (connect_v1 t))) = cluster_v1 t \<and>
   cluster_v1 (snd (connect_v1 (snd (connect_v1 t)))) = cluster_v1 t \<and>
   attempts_v1 (snd (connect_v1 (snd (connect_v1 t)))) = attempts_v1 t \<and>
   snd (connect_v1 (snd (connect_v1 t))) = t\<lparr>connect_calls_v1 := connect_calls_v1 t + 2\<rparr>"
  by (simp add: connect_v1_def)

text \<open>
  A closed handle in the key-value capable connector: handle \<open>1\<close>, on which the first call
  of \<open>read\<close> runs, has been closed. The retry runs on handle \<open>3\<close> and returns.
\<close>

lemma read_recovers_on_a_new_handle:
  "\<exists>s'. read (closed_handle 1) example_getSqlQuery (QueryString ''SELECT 1'')
          (new_connector (example_config (Num 1))) = Some (Inr (JArray []), s') \<and>
        attempts s' = [(1, Query ''SELECT 1''), (3, Query ''SELECT 1'')]"
proof -
  let ?w = "closed_handle 1"
  let ?q = "\<lparr>sql = ''SELECT 1''\<rparr>"
  let ?s1 = "(new_connector (example_config (Num 1)))\<lparr>handshakes := 1, cluster := Some 0, bucket := Some 0\<rparr>"
  let ?s3 = "?s1\<lparr>handshakes := handshakes ?s1 + 2, cluster := Some (handshakes ?s1),
        bucket := Some (handshakes ?s1), pending := pending ?s1 @ [handshakes ?s1 + 1],
        attempts := attempts ?s1 @ [(handshakes ?s1, Query (sql ?q))]\<rparr>"
  have rt: "is_retryable (ErrorObj ''parent cluster object has been closed'')"
    by (simp add: is_retryable_def)
  have "internalQuery ?w ?q (Num 1) ?s1 =
      internalQuery ?w ?q (if num_truthy (Num 1) then num_pred (Num 1) else maxRetries (config ?s1)) ?s3"
    by (rule internalQuery_again [OF _ _ rt]) (simp_all add: closed_handle_def)
  moreover have "internalQuery ?w ?q (Num 0) ?s3 =
      Some (Inr [(''meta'', JObject []), (''rows'', JArray [])],
        ?s3\<lparr>handshakes := handshakes ?s3 + 1, cluster := Some (handshakes ?s3),
          bucket := Some (handshakes ?s3),
          attempts := attempts ?s3 @ [(handshakes ?s3, Query (sql ?q))]\<rparr>)"
    by (rule internalQuery_success) (simp_all add: closed_handle_def new_connector_def)
  ultimately show ?thesis
    by (simp add: read_def connect_def closed_handle_def example_getSqlQuery_def
        new_connector_def example_config_def property_def double_round_exact eval_nat_numeral)
qed

text \<open>
  Claim C5 at the older connector. The cluster handle \<open>0\<close> of the instance has been closed
  and the budget is \<open>1\<close>. The first call of \<open>read\<close> runs on handle \<open>0\<close> and throws
  \<open>parent cluster object has been closed\<close>; \<open>connect\<close> is called; the retry runs on handle
  \<open>0\<close> again, and \<open>read\<close> throws \<open>Couchbase max retries exceeded\<close>.
\<close>

theorem retry_reuses_closed_handle_v1:
  "\<exists>t'. read_v1 (closed_handle 0) example_getSqlQuery (QueryString ''SELECT 1'')
          (example_v1 (Num 1)) = Some (Inl max_retries_error, t') \<and>
        attempts_v1 t' = [(0, Query ''SELECT 1''), (0, Query ''SELECT 1'')] \<and>
        cluster_v1 t' = 0 \<and> connect_calls_v1 t' = 3"
proof -
  let ?w = "closed_handle 0"
  let ?q = "\<lparr>sql = ''SELECT 1''\<rparr>"
  let ?t1 = "(example_v1 (Num 1))\<lparr>connect_calls_v1 := 1\<rparr>"
  let ?t3 = "?t1\<lparr>connect_calls_v1 := connect_calls_v1 ?t1 + 1,
        attempts_v1 := attempts_v1 ?t1 @ [(cluster_v1 ?t1, Query (sql ?q))]\<rparr>"
  have rt: "is_retryable (ErrorObj ''parent cluster object has been closed'')"
    by (simp add: is_retryable_def)
  have "internalQuery_v1 ?w ?q (Num 1) ?t1 =
      internalQuery_v1 ?w ?q (if num_truthy (Num 1) then num_pred (Num 1) else maxRetries (config_v1 ?t1)) ?t3"
    by (rule internalQuery_v1_again [OF _ rt]) (simp_all add: closed_handle_def example_v1_def)
  moreover have "internalQuery_v1 ?w ?q (Num 0) ?t3 = Some (Inl max_retries_error,
      ?t3\<lparr>connect_calls_v1 := connect_calls_v1 ?t3 + 1,
        attempts_v1 := attempts_v1 ?t3 @ [(cluster_v1 ?t3, Query (sql ?q))],
        console_v1 := console_v1 ?t3 @ [ConsoleError (ErrorObj ''parent cluster object has been closed'')]\<rparr>)"
    by (rule internalQuery_v1_exhausted [OF _ rt]) (simp_all add: closed_handle_def example_v1_def)
  ultimately show ?thesis
    by (simp add: read_v1_def connect_v1_def Let_def example_getSqlQuery_def example_v1_def
        example_config_def double_round_exact eval_nat_numeral)
qed

end
